theory Spec2Isabelle
  imports Complex_Main
begin

section \<open>AEGIS governance decision core\<close>

text \<open>
  The repository ships its backend logic as Python listings (policy engine, DLP scanner,
  trust vector) and a React dashboard. The definitions below follow those listings
  function by function. Python dictionaries loaded from YAML are records whose fields
  are optional: a subscript \<^verbatim>\<open>d['k']\<close> on a missing key raises \<^verbatim>\<open>KeyError\<close>,
  while \<^verbatim>\<open>d.get('k', v)\<close> falls back to \<^verbatim>\<open>v\<close>. Python floats that are only
  compared, never computed with, are reals.
\<close>

subsection \<open>Decisions, errors and the rule table\<close>

datatype decision = ALLOW | DENY | ESCALATE

datatype error = KeyError string | IllegalTransitionError | NotFound

record result =
  decision :: decision
  reason :: string

text \<open>One entry of \<^verbatim>\<open>intents\<close> in \<^verbatim>\<open>intents.yaml\<close>.\<close>

record intent_def =
  idef_name :: "string option"
  idef_risk_level :: "string option"
  idef_required_fields :: "string list"
  idef_escalation_only :: "bool option"

text \<open>One entry of \<^verbatim>\<open>constraints.environment_defaults\<close>.\<close>

record env_defaults =
  human_approval_required :: "bool option"
  max_risk :: "string option"

record constraints =
  confidence_threshold :: "real option"
  environment_defaults :: "(string \<times> env_defaults) list option"

record taxonomy =
  tax_intents :: "intent_def list option"
  tax_constraints :: "constraints option"

text \<open>
  The evaluation context: \<^verbatim>\<open>{"intent": {"name": ..., "confidence": ..., ...},
  "environment": ...}\<close>. \<open>intent_fields\<close> lists the further keys the intent carries.
\<close>

record intent =
  intent_name :: "string option"
  intent_confidence :: "real option"
  intent_fields :: "string list"

record eval_context =
  ctx_intent :: "intent option"
  ctx_environment :: "string option"

subsection \<open>PolicyEvaluator.evaluate (policy/engine.py)\<close>

text \<open>
  \<^verbatim>\<open>next((i for i in self.taxonomy['intents'] if i['name'] == intent_name), None)\<close>:
  the first entry whose name equals the requested one; an entry without a name raises
  before any later entry is looked at.
\<close>

fun find_intent :: "intent_def list \<Rightarrow> string option \<Rightarrow> error + intent_def option" where
  "find_intent [] n = Inr None"
| "find_intent (i # rest) n =
     (case idef_name i of
        None \<Rightarrow> Inl (KeyError ''name'')
      | Some m \<Rightarrow> if Some m = n then Inr (Some i) else find_intent rest n)"

text \<open>How an f-string prints the requested name.\<close>

definition show_name :: "string option \<Rightarrow> string" where
  "show_name n = (case n of None \<Rightarrow> ''None'' | Some s \<Rightarrow> s)"

definition get_name :: "eval_context \<Rightarrow> string option" where
  "get_name ctx = (case ctx_intent ctx of None \<Rightarrow> None | Some i \<Rightarrow> intent_name i)"

definition get_environment :: "eval_context \<Rightarrow> string" where
  "get_environment ctx = (case ctx_environment ctx of None \<Rightarrow> ''unknown'' | Some e \<Rightarrow> e)"

definition get_confidence :: "eval_context \<Rightarrow> real" where
  "get_confidence ctx =
     (case ctx_intent ctx of
        None \<Rightarrow> 0
      | Some i \<Rightarrow> (case intent_confidence i of None \<Rightarrow> 0 | Some c \<Rightarrow> c))"

definition no_env_defaults :: env_defaults where
  "no_env_defaults = \<lparr>human_approval_required = None, max_risk = None\<rparr>"

definition get_env_defaults :: "(string \<times> env_defaults) list \<Rightarrow> string \<Rightarrow> env_defaults" where
  "get_env_defaults envs e = (case map_of envs e of None \<Rightarrow> no_env_defaults | Some d \<Rightarrow> d)"

text \<open>The four conditions of the method, in the source's words.\<close>

definition confidence_too_low :: "real \<Rightarrow> real \<Rightarrow> bool" where
  "confidence_too_low c threshold = (c < threshold)"

definition needs_human_approval :: "env_defaults \<Rightarrow> string \<Rightarrow> bool" where
  "needs_human_approval d risk_level =
     (human_approval_required d = Some True \<and> risk_level \<in> set [''HIGH'', ''CRITICAL''])"

definition critical_in_production :: "string \<Rightarrow> string \<Rightarrow> bool" where
  "critical_in_production e risk_level = (e = ''production'' \<and> risk_level = ''CRITICAL'')"

definition decide :: "real \<Rightarrow> real \<Rightarrow> env_defaults \<Rightarrow> string \<Rightarrow> string \<Rightarrow> result" where
  "decide c threshold d e risk_level =
     (if confidence_too_low c threshold then
        \<lparr>decision = DENY, reason = ''Confidence too low''\<rparr>
      else if needs_human_approval d risk_level then
        \<lparr>decision = ESCALATE,
         reason = ''Human approval required for high risk in production''\<rparr>
      else if critical_in_production e risk_level then
        \<lparr>decision = DENY,
         reason = ''Critical actions blocked in production by default''\<rparr>
      else \<lparr>decision = ALLOW, reason = ''Policy requirements met''\<rparr>)"

definition evaluate :: "taxonomy \<Rightarrow> eval_context \<Rightarrow> error + result" where
  "evaluate t ctx =
     (case tax_intents t of
        None \<Rightarrow> Inl (KeyError ''intents'')
      | Some defs \<Rightarrow>
        (case find_intent defs (get_name ctx) of
           Inl e \<Rightarrow> Inl e
         | Inr None \<Rightarrow>
             Inr \<lparr>decision = DENY,
                  reason = ''Unknown intent: '' @ show_name (get_name ctx)\<rparr>
         | Inr (Some intent_def) \<Rightarrow>
           (case idef_risk_level intent_def of
              None \<Rightarrow> Inl (KeyError ''risk_level'')
            | Some risk_level \<Rightarrow>
              (case tax_constraints t of
                 None \<Rightarrow> Inl (KeyError ''constraints'')
               | Some cs \<Rightarrow>
                 (case environment_defaults cs of
                    None \<Rightarrow> Inl (KeyError ''environment_defaults'')
                  | Some envs \<Rightarrow>
                    (case confidence_threshold cs of
                       None \<Rightarrow> Inl (KeyError ''confidence_threshold'')
                     | Some threshold \<Rightarrow>
                         Inr (decide (get_confidence ctx) threshold
                                (get_env_defaults envs (get_environment ctx))
                                (get_environment ctx) risk_level)))))))"

text \<open>The rule table of \<^verbatim>\<open>backend/src/aegis/policy/intents.yaml\<close>.\<close>

definition mk_intent_def :: "string \<Rightarrow> string list \<Rightarrow> string \<Rightarrow> intent_def" where
  "mk_intent_def n fs r =
     \<lparr>idef_name = Some n, idef_risk_level = Some r, idef_required_fields = fs,
      idef_escalation_only = None\<rparr>"

definition yaml_intents :: "intent_def list" where
  "yaml_intents =
     [mk_intent_def ''MODIFY_RESOURCE'' [''target'', ''action_type'', ''change_size''] ''HIGH'',
      mk_intent_def ''DELETE_RESOURCE'' [''target'', ''reasoning_hash''] ''CRITICAL'',
      mk_intent_def ''READ_PII'' [''data_source'', ''justification''] ''MEDIUM'',
      mk_intent_def ''SEND_EXTERNAL_REQUEST'' [''url'', ''method'', ''payload_sample'']
        ''MEDIUM'']"

definition production_defaults :: env_defaults where
  "production_defaults = \<lparr>human_approval_required = Some True, max_risk = Some ''MEDIUM''\<rparr>"

definition staging_defaults :: env_defaults where
  "staging_defaults = \<lparr>human_approval_required = Some False, max_risk = Some ''HIGH''\<rparr>"

definition intents_yaml :: taxonomy where
  "intents_yaml =
     \<lparr>tax_intents = Some yaml_intents,
      tax_constraints = Some
        \<lparr>confidence_threshold = Some (9 / 10),
         environment_defaults = Some
           [(''production'', production_defaults), (''staging'', staging_defaults)]\<rparr>\<rparr>"

definition mk_context :: "string \<Rightarrow> real option \<Rightarrow> string list \<Rightarrow> string \<Rightarrow> eval_context" where
  "mk_context n c fs e =
     \<lparr>ctx_intent = Some \<lparr>intent_name = Some n, intent_confidence = c, intent_fields = fs\<rparr>,
      ctx_environment = Some e\<rparr>"

text \<open>
  The outcomes of the checks that apply to one request, each taken on its own, and the
  most restrictive of a list of outcomes under DENY > ESCALATE > ALLOW.
\<close>

definition applicable_outcomes ::
  "real \<Rightarrow> real \<Rightarrow> env_defaults \<Rightarrow> string \<Rightarrow> string \<Rightarrow> decision list" where
  "applicable_outcomes c threshold d e risk_level =
     (if confidence_too_low c threshold then [DENY] else []) @
     (if needs_human_approval d risk_level then [ESCALATE] else []) @
     (if critical_in_production e risk_level then [DENY] else [])"

fun restrictiveness :: "decision \<Rightarrow> nat" where
  "restrictiveness ALLOW = 0"
| "restrictiveness ESCALATE = 1"
| "restrictiveness DENY = 2"

fun most_restrictive :: "decision list \<Rightarrow> decision" where
  "most_restrictive [] = ALLOW"
| "most_restrictive (d # ds) =
     (if restrictiveness (most_restrictive ds) \<le> restrictiveness d then d
      else most_restrictive ds)"

text \<open>An outcome that lets the action through.\<close>

definition allows :: "error + result \<Rightarrow> bool" where
  "allows x = (case x of Inl e \<Rightarrow> False | Inr r \<Rightarrow> decision r = ALLOW)"

text \<open>The requested intent matches no rule of the table.\<close>

definition unknown_intent :: "taxonomy \<Rightarrow> eval_context \<Rightarrow> bool" where
  "unknown_intent t ctx =
     (case tax_intents t of
        None \<Rightarrow> False
      | Some defs \<Rightarrow> find_intent defs (get_name ctx) = Inr None)"

text \<open>
  The requested intent matches a rule that declares its risk level, in a table whose
  constraints carry the environment defaults.
\<close>

definition matches_rule :: "taxonomy \<Rightarrow> eval_context \<Rightarrow> bool" where
  "matches_rule t ctx =
     (case tax_intents t of
        None \<Rightarrow> False
      | Some defs \<Rightarrow>
        (case find_intent defs (get_name ctx) of
           Inl e \<Rightarrow> False
         | Inr None \<Rightarrow> False
         | Inr (Some r) \<Rightarrow>
             idef_risk_level r \<noteq> None \<and>
             (case tax_constraints t of
                None \<Rightarrow> False
              | Some cs \<Rightarrow> environment_defaults cs \<noteq> None)))"

text \<open>A request has no confidence field: the intent is absent or carries none.\<close>

definition no_confidence :: "eval_context \<Rightarrow> bool" where
  "no_confidence ctx =
     (case ctx_intent ctx of None \<Rightarrow> True | Some i \<Rightarrow> intent_confidence i = None)"

text \<open>The required fields of a rule that the submitted intent does not carry.\<close>

definition missing_fields :: "intent_def \<Rightarrow> eval_context \<Rightarrow> string list" where
  "missing_fields r ctx =
     filter (\<lambda>f. f \<notin> set (case ctx_intent ctx of None \<Rightarrow> [] | Some i \<Rightarrow> intent_fields i))
       (idef_required_fields r)"

subsection \<open>PolicyEvaluatorV2.evaluate (namespaces and shadow intents)\<close>

text \<open>\<^verbatim>\<open>str.replace\<close> of one character by a string.\<close>

definition replace_char :: "char \<Rightarrow> string \<Rightarrow> string \<Rightarrow> string" where
  "replace_char c r s = concat (map (\<lambda>x. if x = c then r else [x]) s)"

definition backslash :: char where
  "backslash = CHR 0x5C"

text \<open>\<^verbatim>\<open>pattern.replace('.', r'\.').replace('*', '.*')\<close>, then anchored.\<close>

definition namespace_regex :: "string \<Rightarrow> string" where
  "namespace_regex pattern =
     ''^'' @ replace_char (CHR ''*'') ''.*'' (replace_char (CHR ''.'') [backslash, CHR ''.''] pattern)
       @ ''$''"

text \<open>
  \<^verbatim>\<open>_find_namespace_match\<close>. The parameter \<open>re_match\<close> is the library call
  \<^verbatim>\<open>re.match(regex, intent_name)\<close>, read as a truth value.
\<close>

fun find_namespace_match ::
  "(string \<Rightarrow> string \<Rightarrow> bool) \<Rightarrow> intent_def list \<Rightarrow> string \<Rightarrow> error + intent_def option" where
  "find_namespace_match re_match [] n = Inr None"
| "find_namespace_match re_match (i # rest) n =
     (case idef_name i of
        None \<Rightarrow> Inl (KeyError ''name'')
      | Some pattern \<Rightarrow>
          if CHR ''*'' \<in> set pattern \<and> re_match (namespace_regex pattern) n then Inr (Some i)
          else find_namespace_match re_match rest n)"

text \<open>
  \<^verbatim>\<open>PolicyEvaluatorV2.evaluate\<close>. The listing does not show the helpers
  \<^verbatim>\<open>_find_exact_intent\<close> and \<^verbatim>\<open>_evaluate_intent\<close>; they are the parameters
  \<open>find_exact\<close> and \<open>evaluate_intent\<close>.
\<close>

definition evaluate_v2 ::
  "(string \<Rightarrow> intent_def option) \<Rightarrow> (intent_def \<Rightarrow> result) \<Rightarrow> (string \<Rightarrow> string \<Rightarrow> bool) \<Rightarrow>
   intent_def list \<Rightarrow> string \<Rightarrow> string \<Rightarrow> error + result" where
  "evaluate_v2 find_exact evaluate_intent re_match defs n e =
     (case find_exact n of
        Some exact_match \<Rightarrow> Inr (evaluate_intent exact_match)
      | None \<Rightarrow>
        (case find_namespace_match re_match defs n of
           Inl err \<Rightarrow> Inl err
         | Inr (Some namespace_match) \<Rightarrow>
             if idef_escalation_only namespace_match = Some True then
               Inr \<lparr>decision = ESCALATE,
                    reason = ''Unknown intent '' @ n @ '' in namespace, requires review''\<rparr>
             else Inr (evaluate_intent namespace_match)
         | Inr None \<Rightarrow>
             if e \<in> set [''staging'', ''dev''] then
               Inr \<lparr>decision = ESCALATE,
                    reason = ''Unknown intent in non-production, escalating for review''\<rparr>
             else Inr \<lparr>decision = DENY, reason = ''Unknown intent in production''\<rparr>))"

text \<open>
  A matcher for the anchored expressions that \<open>namespace_regex\<close> builds from names
  of letters, digits, underscores, dots and stars: an escaped character stands for
  itself, \<^verbatim>\<open>.*\<close> for any run of characters other than a newline, and the final
  \<^verbatim>\<open>$\<close> also matches before one trailing newline.
\<close>

datatype tok = Lit char | AnyRun

fun tokens :: "string \<Rightarrow> tok list" where
  "tokens [] = []"
| "tokens [c] = [Lit c]"
| "tokens (c # d # rest) =
     (if c = backslash then Lit d # tokens rest
      else if c = CHR ''.'' \<and> d = CHR ''*'' then AnyRun # tokens rest
      else Lit c # tokens (d # rest))"

fun tmatch :: "tok list \<Rightarrow> string \<Rightarrow> bool" where
  "tmatch [] s = (s = [] \<or> s = [CHR 0x0A])"
| "tmatch (Lit c # ts) [] = False"
| "tmatch (Lit c # ts) (x # xs) = (c = x \<and> tmatch ts xs)"
| "tmatch (AnyRun # ts) [] = tmatch ts []"
| "tmatch (AnyRun # ts) (x # xs) =
     (tmatch ts (x # xs) \<or> (x \<noteq> CHR 0x0A \<and> tmatch (AnyRun # ts) xs))"

definition anchored_match :: "string \<Rightarrow> string \<Rightarrow> bool" where
  "anchored_match regex s =
     (case regex of
        [] \<Rightarrow> False
      | c # body \<Rightarrow>
          c = CHR ''^'' \<and> body \<noteq> [] \<and> last body = CHR ''$'' \<and> tmatch (tokens (butlast body)) s)"

text \<open>The enhanced rule table of the namespace listing.\<close>

definition yaml_intents_v2 :: "intent_def list" where
  "yaml_intents_v2 =
     [\<lparr>idef_name = Some ''READ.PII'', idef_risk_level = Some ''MEDIUM'',
       idef_required_fields = [], idef_escalation_only = None\<rparr>,
      \<lparr>idef_name = Some ''READ.METADATA'', idef_risk_level = Some ''LOW'',
       idef_required_fields = [], idef_escalation_only = None\<rparr>,
      \<lparr>idef_name = Some ''READ.EXPERIMENTAL.*'', idef_risk_level = None,
       idef_required_fields = [], idef_escalation_only = Some True\<rparr>,
      \<lparr>idef_name = Some ''WRITE.*'', idef_risk_level = Some ''HIGH'',
       idef_required_fields = [], idef_escalation_only = None\<rparr>]"

definition exact_in :: "intent_def list \<Rightarrow> string \<Rightarrow> intent_def option" where
  "exact_in defs n = List.find (\<lambda>i. idef_name i = Some n) defs"


subsection \<open>Pattern scanner (dlp/scanner.py and the two-stage scanner)\<close>

text \<open>\<^verbatim>\<open>DLPScanner._redact\<close>.\<close>

definition redact :: "string \<Rightarrow> string" where
  "redact text =
     (if length text \<le> 4 then ''***''
      else take 2 text @ replicate (length text - 4) (CHR ''*'') @ drop (length text - 2) text)"

record finding =
  finding_type :: string
  position :: "nat \<times> nat"
  redacted :: string

text \<open>\<^verbatim>\<open>text[start:end]\<close>, the text of a match.\<close>

definition slice :: "string \<Rightarrow> nat \<times> nat \<Rightarrow> string" where
  "slice text sp = take (snd sp - fst sp) (drop (fst sp) text)"

definition pattern_names :: "string list" where
  "pattern_names = [''email'', ''ssn'', ''credit_card'', ''api_key'', ''phone'']"

text \<open>
  \<^verbatim>\<open>DLPScanner.scan\<close>. The parameter \<open>finditer\<close> gives, for the name of an entry of
  \<^verbatim>\<open>PATTERNS\<close> and a text, the spans at which the library call
  \<^verbatim>\<open>re.finditer(regex, text)\<close> matches that entry's expression.
\<close>

definition scan :: "(string \<Rightarrow> string \<Rightarrow> (nat \<times> nat) list) \<Rightarrow> string \<Rightarrow> finding list" where
  "scan finditer text =
     concat (map (\<lambda>pattern_name.
                    map (\<lambda>sp. \<lparr>finding_type = pattern_name, position = sp,
                                  redacted = redact (slice text sp)\<rparr>)
                      (finditer pattern_name text))
               pattern_names)"

text \<open>
  The scanner of the technical deep dive (\<^verbatim>\<open>dlp_scanner.py\<close>) builds its findings with
  a further key \<^verbatim>\<open>matched_text\<close>, commented "For logging only".
\<close>

record logged_finding = finding +
  lf_severity :: string
  lf_description :: string
  matched_text :: string

text \<open>Name, severity and description of the entries of its pattern table.\<close>

definition pattern_table :: "(string \<times> string \<times> string) list" where
  "pattern_table =
     [(''email'', ''MEDIUM'', ''Email address detected''),
      (''ssn'', ''CRITICAL'', ''Social Security Number pattern detected''),
      (''credit_card'', ''CRITICAL'', ''Credit card number pattern detected''),
      (''api_key'', ''HIGH'', ''API key pattern detected''),
      (''phone'', ''MEDIUM'', ''Phone number detected''),
      (''ip_address'', ''LOW'', ''IP address detected'')]"

definition scan_logged ::
  "(string \<Rightarrow> string \<Rightarrow> (nat \<times> nat) list) \<Rightarrow> string \<Rightarrow> logged_finding list" where
  "scan_logged finditer text =
     concat (map (\<lambda>(pattern_name, sev, descr).
                    map (\<lambda>sp. \<lparr>finding_type = pattern_name, position = sp,
                                  redacted = redact (slice text sp),
                                  lf_severity = sev, lf_description = descr,
                                  matched_text = slice text sp\<rparr>)
                      (finditer pattern_name text))
               pattern_table)"

text \<open>
  \<^verbatim>\<open>re.findall(r'\b\w{20,}\b', text)\<close>: the maximal runs of word characters that are
  at least 20 long. Python's \<^verbatim>\<open>\w\<close> also matches letters and digits outside
  ASCII; the word characters here are those of ASCII, for ASCII text.
\<close>

definition is_word_char :: "char \<Rightarrow> bool" where
  "is_word_char c =
     (c \<in> set ''abcdefghijklmnopqrstuvwxyzABCDEFGHIJKLMNOPQRSTUVWXYZ0123456789_'')"

fun word_runs :: "string \<Rightarrow> string \<Rightarrow> string list" where
  "word_runs cur [] = (if cur = [] then [] else [cur])"
| "word_runs cur (c # cs) =
     (if is_word_char c then word_runs (cur @ [c]) cs
      else (if cur = [] then [] else [cur]) @ word_runs [] cs)"

definition long_tokens :: "string \<Rightarrow> string list" where
  "long_tokens text = filter (\<lambda>w. 20 \<le> length w) (word_runs [] text)"

text \<open>\<^verbatim>\<open>_shannon_entropy\<close>, over the reals.\<close>

definition shannon_entropy :: "string \<Rightarrow> real" where
  "shannon_entropy text =
     (if text = [] then 0
      else fold (\<lambda>c entropy.
                   entropy - (real (count_list text c) / real (length text))
                             * log 2 (real (count_list text c) / real (length text)))
             (remdups text) 0)"

definition entropy_threshold :: real where
  "entropy_threshold = 45 / 10"

record entropy_finding =
  ef_type :: string
  ef_severity :: string
  ef_description :: string
  ef_token_length :: nat
  ef_redacted :: string

text \<open>\<^verbatim>\<open>token[:4] + '...' + token[-4:]\<close>.\<close>

definition entropy_redact :: "string \<Rightarrow> string" where
  "entropy_redact token = take 4 token @ ''...'' @ drop (length token - 4) token"

text \<open>
  \<^verbatim>\<open>_entropy_scan\<close>. The parameter \<open>fmt\<close> prints the entropy with two decimals
  (\<^verbatim>\<open>{entropy:.2f}\<close>).
\<close>

definition entropy_scan :: "(real \<Rightarrow> string) \<Rightarrow> string \<Rightarrow> entropy_finding list" where
  "entropy_scan fmt text =
     map (\<lambda>token.
            \<lparr>ef_type = ''high_entropy_token'', ef_severity = ''HIGH'',
             ef_description =
               ''Potential secret/token detected (entropy: '' @ fmt (shannon_entropy token) @ '')'',
             ef_token_length = length token,
             ef_redacted = entropy_redact token\<rparr>)
       (filter (\<lambda>token. shannon_entropy token > entropy_threshold) (long_tokens text))"

definition is_outbound_intent :: "string \<Rightarrow> bool" where
  "is_outbound_intent i =
     (i \<in> set [''SEND_EXTERNAL_REQUEST'', ''SEND_EMAIL'', ''EXPORT_DATA'', ''WRITE_EXTERNAL''])"

text \<open>
  \<^verbatim>\<open>EnhancedDLPScanner.scan\<close>: the findings of the regex stage, then those of the
  entropy stage for outbound intents. The listing does not show \<^verbatim>\<open>_regex_scan\<close>; it
  is the parameter \<open>regex_scan\<close>.
\<close>

definition scan_v2 ::
  "(string \<Rightarrow> finding list) \<Rightarrow> (real \<Rightarrow> string) \<Rightarrow> string \<Rightarrow> string \<Rightarrow>
   finding list \<times> entropy_finding list" where
  "scan_v2 regex_scan fmt text intent_context =
     (regex_scan text,
      if is_outbound_intent intent_context then entropy_scan fmt text else [])"

text \<open>The characters of \<open>secret\<close> that an output string shows at its two ends.\<close>

definition shown_prefix :: "string \<Rightarrow> string \<Rightarrow> nat" where
  "shown_prefix secret out = length (takeWhile (\<lambda>(a, b). a = b) (zip secret out))"

definition shown_suffix :: "string \<Rightarrow> string \<Rightarrow> nat" where
  "shown_suffix secret out = shown_prefix (rev secret) (rev out)"

subsection \<open>TrustVector.apply_penalty (trust vectors)\<close>

text \<open>
  The right-hand side of the assignment, \<^verbatim>\<open>max(0, self.dimensions[dimension] - points)\<close>:
  the value is not taken below 0, and nothing bounds it from above.
\<close>

definition penalise :: "real \<Rightarrow> real \<Rightarrow> real" where
  "penalise t points = max 0 (t - points)"

text \<open>
  \<^verbatim>\<open>apply_penalty\<close>; the subscript raises on a dimension that the vector does not
  have.
\<close>

definition apply_penalty :: "(string \<rightharpoonup> real) \<Rightarrow> string \<Rightarrow> real \<Rightarrow> error + (string \<rightharpoonup> real)" where
  "apply_penalty dimensions dimension points =
     (case dimensions dimension of
        None \<Rightarrow> Inl (KeyError dimension)
      | Some t \<Rightarrow> Inr (dimensions(dimension \<mapsto> penalise t points)))"

subsection \<open>Agents, investigations and the governance commands\<close>

text \<open>
  The sources hold the dashboard and the documentation of the backend, not the backend
  modules \<^verbatim>\<open>governance/trust.py\<close>, \<^verbatim>\<open>routers/governance.py\<close> and
  \<^verbatim>\<open>routers/investigation.py\<close>. The records follow the documented database models;
  the operations on them are modelled from the specification, and the two status badges
  are the dashboard's code.
\<close>

datatype mode = FULL_ACCESS | REDUCED | ISOLATED

datatype status = ACTIVE | REVOKED

datatype risk = LOW | MEDIUM | HIGH | CRITICAL

datatype inv_status = UNDER_INVESTIGATION | CONFIRMED | FALSE_POSITIVE | RESTORED

record decision_event =
  ev_decision :: decision
  ev_risk :: risk
  ev_intent :: string
  ev_time :: nat

record agent =
  agent_id :: string
  public_key :: string
  trust :: real
  isolationLevel :: nat
  mode :: mode
  status :: status
  last_event :: "decision_event option"
  denials :: "(string \<times> nat) list"

record evidence =
  previous_trust :: real
  previous_status :: status
  previous_level :: nat
  timeline :: "(string \<times> nat) list"

record investigation =
  inv_agent_id :: string
  severity :: string
  breach_type :: string
  detection_mechanism :: "string list"
  inv_evidence :: evidence
  inv_status :: inv_status

record system =
  agents :: "agent list"
  investigations :: "investigation list"

text \<open>
  The configuration constants the specification leaves open: the penalty of each risk
  level, the extra penalty of a repeated offence and its time window, and the tag of an
  investigation opened by a decision.
\<close>

record config =
  penalty :: "risk \<Rightarrow> real"
  escalation_penalty :: real
  window :: nat
  decision_breach_type :: string


text \<open>
  Modelled from the spec: the derivations of the trust and isolation tracker, which is
  not among the sources. The level is floor(trust / 10), the mode is FULL_ACCESS from
  level 8, REDUCED from 1 to 7 and ISOLATED at 0.
\<close>

definition level_of :: "real \<Rightarrow> nat" where
  "level_of t = nat \<lfloor>t / 10\<rfloor>"

definition mode_of :: "nat \<Rightarrow> mode" where
  "mode_of l = (if 8 \<le> l then FULL_ACCESS else if 1 \<le> l then REDUCED else ISOLATED)"

text \<open>
  Modelled from the spec: a DENY repeats an offence when the decision just before it was a
  DENY of the same intent, at most \<open>window\<close> time units earlier.
\<close>

definition repeat_offense :: "config \<Rightarrow> agent \<Rightarrow> decision_event \<Rightarrow> bool" where
  "repeat_offense cfg a ev =
     (case last_event a of
        None \<Rightarrow> False
      | Some prev \<Rightarrow>
          ev_decision prev = DENY \<and> ev_intent prev = ev_intent ev \<and>
          ev_time prev \<le> ev_time ev \<and> ev_time ev - ev_time prev \<le> window cfg)"

text \<open>
  Modelled from the spec: the trust after one decision. ALLOW leaves it unchanged; DENY
  subtracts the penalty of the risk level, and the escalation penalty on a repeated
  offence. The subtraction is the one of the trust vector listing, \<open>penalise\<close>: it
  stops at 0 and has no ceiling. The specification names no effect of ESCALATE on trust,
  so it has none.
\<close>

definition new_trust :: "config \<Rightarrow> agent \<Rightarrow> decision_event \<Rightarrow> real" where
  "new_trust cfg a ev =
     (case ev_decision ev of
        ALLOW \<Rightarrow> trust a
      | ESCALATE \<Rightarrow> trust a
      | DENY \<Rightarrow>
          penalise (trust a)
            (penalty cfg (ev_risk ev)
             + (if repeat_offense cfg a ev then escalation_penalty cfg else 0)))"

text \<open>
  Modelled from the spec: \<^verbatim>\<open>apply(agent, decision)\<close> of the tracker, returning the
  updated agent and whether it crossed into level 0. Reaching level 0 sets the status to
  REVOKED, and no decision sets it back.
\<close>

definition apply_decision :: "config \<Rightarrow> agent \<Rightarrow> decision_event \<Rightarrow> agent \<times> bool" where
  "apply_decision cfg a ev =
     (let t = new_trust cfg a ev;
          l = level_of t
      in (a\<lparr>trust := t, isolationLevel := l, mode := mode_of l,
            status := (if l = 0 then REVOKED else status a),
            last_event := Some ev,
            denials := (if ev_decision ev = DENY
                        then denials a @ [(ev_intent ev, ev_time ev)] else denials a)\<rparr>,
          l = 0 \<and> status a \<noteq> REVOKED))"

text \<open>Modelled from the spec: the agent created on identity issuance.\<close>

definition fresh_agent :: "string \<Rightarrow> string \<Rightarrow> agent" where
  "fresh_agent aid pk =
     \<lparr>agent_id = aid, public_key = pk, trust = 100, isolationLevel = 10, mode = FULL_ACCESS,
      status = ACTIVE, last_event = None, denials = []\<rparr>"

text \<open>
  Modelled from the spec: the evidence of an investigation, the agent's trust, status and
  level before the revocation and the ordered timeline of events.
\<close>

definition snapshot :: "agent \<Rightarrow> (string \<times> nat) list \<Rightarrow> evidence" where
  "snapshot a events =
     \<lparr>previous_trust = trust a, previous_status = status a, previous_level = isolationLevel a,
      timeline = events\<rparr>"

definition show_risk :: "risk \<Rightarrow> string" where
  "show_risk r =
     (case r of LOW \<Rightarrow> ''LOW'' | MEDIUM \<Rightarrow> ''MEDIUM'' | HIGH \<Rightarrow> ''HIGH''
      | CRITICAL \<Rightarrow> ''CRITICAL'')"

text \<open>
  Modelled from the spec: the investigation opened when a decision takes an agent to
  level 0; its evidence is the state before the decision and the denials up to it.
\<close>

definition open_investigation :: "config \<Rightarrow> agent \<Rightarrow> agent \<Rightarrow> decision_event \<Rightarrow> investigation" where
  "open_investigation cfg before after ev =
     \<lparr>inv_agent_id = agent_id before, severity = show_risk (ev_risk ev),
      breach_type = decision_breach_type cfg, detection_mechanism = [''trust''],
      inv_evidence = snapshot before (denials after), inv_status = UNDER_INVESTIGATION\<rparr>"

text \<open>
  Modelled from the spec: the investigation that a purge opens for one agent, as the
  walkthrough of the global purge also shows it.
\<close>

definition purge_investigation :: "nat \<Rightarrow> agent \<Rightarrow> investigation" where
  "purge_investigation now a =
     \<lparr>inv_agent_id = agent_id a, severity = ''CRITICAL'',
      breach_type = ''GLOBAL_SECURITY_INCIDENT'',
      detection_mechanism = [''Manual intervention''],
      inv_evidence = snapshot a [(''Global purge'', now)],
      inv_status = UNDER_INVESTIGATION\<rparr>"

text \<open>Modelled from the spec: what a purge does to one agent.\<close>

definition revoke :: "agent \<Rightarrow> agent" where
  "revoke a = a\<lparr>trust := 0, isolationLevel := 0, mode := ISOLATED, status := REVOKED\<rparr>"

text \<open>
  Modelled from the spec: \<^verbatim>\<open>purge()\<close>, one transition of the whole state: every agent
  is revoked and one investigation per agent is appended.
\<close>

definition purge :: "nat \<Rightarrow> system \<Rightarrow> system" where
  "purge now st =
     \<lparr>agents = map revoke (agents st),
      investigations = investigations st @ map (purge_investigation now) (agents st)\<rparr>"

text \<open>
  Modelled from the spec: investigations are kept in the order in which they were opened,
  and the current investigation of an agent is the latest one opened for it; the result
  is its index in the table. It is open while it is under investigation.
\<close>

fun last_index :: "('a \<Rightarrow> bool) \<Rightarrow> 'a list \<Rightarrow> nat option" where
  "last_index P [] = None"
| "last_index P (x # xs) =
     (case last_index P xs of
        Some i \<Rightarrow> Some (Suc i)
      | None \<Rightarrow> if P x then Some 0 else None)"

definition current_investigation :: "system \<Rightarrow> string \<Rightarrow> nat option" where
  "current_investigation st aid = last_index (\<lambda>v. inv_agent_id v = aid) (investigations st)"

definition open_index :: "system \<Rightarrow> string \<Rightarrow> nat option" where
  "open_index st aid =
     (case current_investigation st aid of
        None \<Rightarrow> None
      | Some i \<Rightarrow> if inv_status (investigations st ! i) = UNDER_INVESTIGATION then Some i
                  else None)"

text \<open>Modelled from the spec: what a restore does to the agent.\<close>

definition restored :: "agent \<Rightarrow> agent" where
  "restored a = a\<lparr>trust := 100, isolationLevel := 10, mode := FULL_ACCESS, status := ACTIVE\<rparr>"

definition update_agent :: "string \<Rightarrow> (agent \<Rightarrow> agent) \<Rightarrow> agent list \<Rightarrow> agent list" where
  "update_agent aid f as = map (\<lambda>a. if agent_id a = aid then f a else a) as"

text \<open>
  Modelled from the spec: \<^verbatim>\<open>restore(agentId)\<close>. It is legal only while the agent's
  current investigation is UNDER_INVESTIGATION; otherwise it fails and returns no state.
\<close>

definition restore :: "string \<Rightarrow> system \<Rightarrow> error + system" where
  "restore aid st =
     (case open_index st aid of
        None \<Rightarrow> Inl IllegalTransitionError
      | Some i \<Rightarrow>
          Inr \<lparr>agents = update_agent aid restored (agents st),
               investigations =
                 (investigations st)[i := (investigations st ! i)\<lparr>inv_status := RESTORED\<rparr>]\<rparr>)"

text \<open>Modelled from the spec: \<^verbatim>\<open>confirmBreach(agentId)\<close>; the agent stays revoked.\<close>

definition confirmBreach :: "string \<Rightarrow> system \<Rightarrow> error + system" where
  "confirmBreach aid st =
     (case open_index st aid of
        None \<Rightarrow> Inl IllegalTransitionError
      | Some i \<Rightarrow>
          Inr (st\<lparr>investigations :=
                 (investigations st)[i := (investigations st ! i)\<lparr>inv_status := CONFIRMED\<rparr>]\<rparr>))"

text \<open>
  Modelled from the spec: one evaluation outcome reaching the tracker. The agent is
  updated, and an investigation is opened exactly when it crosses into level 0.
\<close>

fun decide_agents ::
  "config \<Rightarrow> string \<Rightarrow> decision_event \<Rightarrow> agent list \<Rightarrow> (agent list \<times> investigation list) option"
  where
  "decide_agents cfg aid ev [] = None"
| "decide_agents cfg aid ev (a # as) =
     (if agent_id a = aid then
        (let (a', crossed) = apply_decision cfg a ev
         in Some (a' # as, if crossed then [open_investigation cfg a a' ev] else []))
      else (case decide_agents cfg aid ev as of
              None \<Rightarrow> None
            | Some (as', opened) \<Rightarrow> Some (a # as', opened)))"

definition record_decision :: "config \<Rightarrow> string \<Rightarrow> decision_event \<Rightarrow> system \<Rightarrow> error + system" where
  "record_decision cfg aid ev st =
     (case decide_agents cfg aid ev (agents st) of
        None \<Rightarrow> Inl NotFound
      | Some (as', opened) \<Rightarrow>
          Inr \<lparr>agents = as', investigations = investigations st @ opened\<rparr>)"

text \<open>Modelled from the spec: identity issuance; identifiers are unique.\<close>

definition issue :: "string \<Rightarrow> string \<Rightarrow> system \<Rightarrow> error + system" where
  "issue aid pk st =
     (if aid \<in> set (map agent_id (agents st)) then Inl (KeyError aid)
      else Inr (st\<lparr>agents := agents st @ [fresh_agent aid pk]\<rparr>))"

text \<open>
  Modelled from the spec: the operations that reach the tracker, as commands on the
  whole state.
\<close>

datatype command =
    Issue string string
  | Decide string decision_event
  | Purge nat
  | Restore string
  | ConfirmBreach string

fun exec :: "config \<Rightarrow> command \<Rightarrow> system \<Rightarrow> error + system" where
  "exec cfg (Issue aid pk) st = issue aid pk st"
| "exec cfg (Decide aid ev) st = record_decision cfg aid ev st"
| "exec cfg (Purge now) st = Inr (purge now st)"
| "exec cfg (Restore aid) st = restore aid st"
| "exec cfg (ConfirmBreach aid) st = confirmBreach aid st"

text \<open>
  Modelled from the spec: a sequence of commands; a command that fails mutates nothing.
\<close>

fun run :: "config \<Rightarrow> command list \<Rightarrow> system \<Rightarrow> system" where
  "run cfg [] st = st"
| "run cfg (c # cs) st =
     (case exec cfg c st of Inl e \<Rightarrow> run cfg cs st | Inr st' \<Rightarrow> run cfg cs st')"

definition empty_system :: system where
  "empty_system = \<lparr>agents = [], investigations = []\<rparr>"


text \<open>\<^verbatim>\<open>getStatusBadge\<close> of the identity registry: the label the badge shows.\<close>

definition getStatusBadge :: "agent \<Rightarrow> string" where
  "getStatusBadge a =
     (if status a = REVOKED \<or> trust a = 0 then ''REVOKED''
      else if status a = ACTIVE then ''ACTIVE''
      else (case status a of ACTIVE \<Rightarrow> ''ACTIVE'' | REVOKED \<Rightarrow> ''REVOKED''))"

text \<open>
  \<^verbatim>\<open>InvestigationModal\<close>: nothing is rendered for an agent without an investigation,
  and the buttons Restore Agent and Confirm Breach are rendered only while the
  investigation shown is under investigation.
\<close>

definition modal_actions :: "investigation option \<Rightarrow> string list" where
  "modal_actions shown =
     (case shown of
        None \<Rightarrow> []
      | Some v \<Rightarrow>
          (if inv_status v = UNDER_INVESTIGATION then [''Restore Agent'', ''Confirm Breach'']
           else []) @ [''Close''])"

text \<open>The penalties of the examples: the risk costs of the risk budget listing.\<close>

definition example_config :: config where
  "example_config =
     \<lparr>penalty = (\<lambda>r. case r of LOW \<Rightarrow> 5 | MEDIUM \<Rightarrow> 15 | HIGH \<Rightarrow> 30 | CRITICAL \<Rightarrow> 50),
      escalation_penalty = 10, window = 60, decision_breach_type = ''TRUST_EXHAUSTED''\<rparr>"


subsection \<open>Audit ledger\<close>

text \<open>
  The stored row is the documented \<^verbatim>\<open>AuditLog\<close> model; the module
  \<^verbatim>\<open>audit/ledger.py\<close> is not among the sources.
\<close>

record audit_log =
  al_id :: nat
  al_timestamp :: nat
  ai_id :: string
  al_intent :: string
  al_decision :: decision
  al_reason :: string
  signature :: string
  previous_hash :: string
  current_hash :: string

text \<open>
  Modelled from the spec: the content of an entry that the hash covers: agent id, intent,
  decision, reason, timestamp and sequence number. The signature is made over the
  current hash and is not part of it.
\<close>

type_synonym entry_content = "string \<times> string \<times> decision \<times> string \<times> nat \<times> nat"

definition content_of :: "audit_log \<Rightarrow> entry_content" where
  "content_of e = (ai_id e, al_intent e, al_decision e, al_reason e, al_timestamp e, al_id e)"

definition genesis_hash :: string where
  "genesis_hash = ''0''"

text \<open>
  Modelled from the spec: a canonical serialization of the content. The fields follow
  each other in a fixed order; a number is written in unary and closed by a zero, a
  string is preceded by its length, a decision is one letter. Different contents have
  different serializations.
\<close>

definition ser_nat :: "nat \<Rightarrow> string" where
  "ser_nat n = replicate n (CHR ''1'') @ ''0''"

definition ser_str :: "string \<Rightarrow> string" where
  "ser_str x = ser_nat (length x) @ x"

definition ser_decision :: "decision \<Rightarrow> string" where
  "ser_decision d = (case d of ALLOW \<Rightarrow> ''A'' | DENY \<Rightarrow> ''D'' | ESCALATE \<Rightarrow> ''E'')"

definition serialize :: "entry_content \<Rightarrow> string" where
  "serialize c =
     (case c of (agent, i, d, r, ts, n) \<Rightarrow>
        ser_str agent @ ser_str i @ ser_decision d @ ser_str r @ ser_nat ts @ ser_nat n)"

text \<open>
  Modelled from the spec: the hash of an entry, \<^verbatim>\<open>SHA-256(prev_hash || data)\<close>. The
  hash function is a parameter.
\<close>

definition entry_hash :: "(string \<Rightarrow> string) \<Rightarrow> string \<Rightarrow> entry_content \<Rightarrow> string" where
  "entry_hash sha256 prev c = sha256 (prev @ serialize c)"

definition latest_hash :: "audit_log list \<Rightarrow> string" where
  "latest_hash ledger = (if ledger = [] then genesis_hash else current_hash (last ledger))"

text \<open>
  Modelled from the spec: \<^verbatim>\<open>append(entry)\<close>. The new entry takes the next sequence
  number, links to the current hash of the entry before it, and carries the hash of that
  link and its own content, and a signature over the hash. The signing function is a
  parameter.
\<close>

definition append_entry ::
  "(string \<Rightarrow> string) \<Rightarrow> (string \<Rightarrow> string) \<Rightarrow>
   audit_log list \<Rightarrow> string \<times> string \<times> decision \<times> string \<times> nat \<Rightarrow> audit_log list" where
  "append_entry sha256 sign ledger x =
     (case x of (agent, i, d, r, ts) \<Rightarrow>
        (let h = entry_hash sha256 (latest_hash ledger) (agent, i, d, r, ts, length ledger)
         in ledger @
            [\<lparr>al_id = length ledger, al_timestamp = ts, ai_id = agent, al_intent = i,
              al_decision = d, al_reason = r, signature = sign h,
              previous_hash = latest_hash ledger, current_hash = h\<rparr>]))"

definition build_ledger ::
  "(string \<Rightarrow> string) \<Rightarrow> (string \<Rightarrow> string) \<Rightarrow>
   (string \<times> string \<times> decision \<times> string \<times> nat) list \<Rightarrow> audit_log list" where
  "build_ledger sha256 sign xs = fold (\<lambda>x ledger. append_entry sha256 sign ledger x) xs []"

text \<open>
  Modelled from the spec: \<^verbatim>\<open>verify\<close> over the whole chain, recomputing every hash
  from the genesis hash and comparing the stored link and the stored hash to it.
\<close>

fun verify_from :: "(string \<Rightarrow> string) \<Rightarrow> string \<Rightarrow> audit_log list \<Rightarrow> bool" where
  "verify_from sha256 h [] = True"
| "verify_from sha256 h (e # es) =
     (previous_hash e = h \<and>
      current_hash e = entry_hash sha256 h (content_of e) \<and>
      verify_from sha256 (current_hash e) es)"

definition verify :: "(string \<Rightarrow> string) \<Rightarrow> audit_log list \<Rightarrow> bool" where
  "verify sha256 ledger = verify_from sha256 genesis_hash ledger"

text \<open>A change of the stored value of one field of an entry.\<close>

datatype tamper =
    SetAgent string
  | SetIntent string
  | SetDecision decision
  | SetReason string
  | SetTimestamp nat
  | SetId nat
  | SetPreviousHash string
  | SetCurrentHash string
  | SetSignature string

fun tamper_entry :: "tamper \<Rightarrow> audit_log \<Rightarrow> audit_log" where
  "tamper_entry (SetAgent v) e = e\<lparr>ai_id := v\<rparr>"
| "tamper_entry (SetIntent v) e = e\<lparr>al_intent := v\<rparr>"
| "tamper_entry (SetDecision v) e = e\<lparr>al_decision := v\<rparr>"
| "tamper_entry (SetReason v) e = e\<lparr>al_reason := v\<rparr>"
| "tamper_entry (SetTimestamp v) e = e\<lparr>al_timestamp := v\<rparr>"
| "tamper_entry (SetId v) e = e\<lparr>al_id := v\<rparr>"
| "tamper_entry (SetPreviousHash v) e = e\<lparr>previous_hash := v\<rparr>"
| "tamper_entry (SetCurrentHash v) e = e\<lparr>current_hash := v\<rparr>"
| "tamper_entry (SetSignature v) e = e\<lparr>signature := v\<rparr>"

fun hash_field :: "tamper \<Rightarrow> bool" where
  "hash_field (SetPreviousHash v) = True"
| "hash_field (SetCurrentHash v) = True"
| "hash_field t = False"

fun signature_field :: "tamper \<Rightarrow> bool" where
  "signature_field (SetSignature v) = True"
| "signature_field t = False"

text \<open>A collision of the hash function: two different inputs with the same hash.\<close>

definition hash_collision :: "(string \<Rightarrow> string) \<Rightarrow> string \<Rightarrow> string \<Rightarrow> bool" where
  "hash_collision sha256 x y = (x \<noteq> y \<and> sha256 x = sha256 y)"

text \<open>
  What chain verification says after one stored field of entry \<open>i\<close> has changed: a
  changed link or hash is always found; a change of the hashed content is found unless
  the hash function collides on the hash inputs of the original and the changed entry; a
  changed signature is not looked at.
\<close>

definition tamper_outcome :: "(string \<Rightarrow> string) \<Rightarrow> audit_log list \<Rightarrow> nat \<Rightarrow> tamper \<Rightarrow> bool" where
  "tamper_outcome sha256 ledger i t =
     (let e = ledger ! i;
          after = verify sha256 (ledger[i := tamper_entry t e])
      in if signature_field t then after
         else if hash_field t then \<not> after
         else \<not> after \<or>
              hash_collision sha256 (previous_hash e @ serialize (content_of e))
                (previous_hash e @ serialize (content_of (tamper_entry t e))))"

text \<open>
  Stand-ins for the hash and the signature in the examples: a hash without collisions
  and one that maps every input to the same value.
\<close>

definition toy_hash :: "string \<Rightarrow> string" where
  "toy_hash x = ''#'' @ x"

definition constant_hash :: "string \<Rightarrow> string" where
  "constant_hash x = ''h''"

definition toy_sign :: "string \<Rightarrow> string" where
  "toy_sign h = ''signed''"

definition example_entries :: "(string \<times> string \<times> decision \<times> string \<times> nat) list" where
  "example_entries =
     [(''bot'', ''READ_PII'', ALLOW, ''ok'', 1), (''bot'', ''DELETE_RESOURCE'', DENY, ''no'', 2)]"

definition example_ledger :: "audit_log list" where
  "example_ledger = build_ledger toy_hash toy_sign example_entries"

definition collided_ledger :: "audit_log list" where
  "collided_ledger = build_ledger constant_hash toy_sign example_entries"





definition two_agents :: system where
  "two_agents = run example_config [Issue ''bot-1'' ''k1'', Issue ''bot-2'' ''k2''] empty_system"

definition purged_two :: system where
  "purged_two = purge 7 two_agents"

section \<open>Verified properties\<close>

subsection \<open>Policy evaluation\<close>

text \<open>
  C1 (as amended). An intent that matches no rule is never allowed.
  \<^verbatim>\<open>PolicyEvaluator.evaluate\<close> returns DENY in every environment, with a reason
  that names the intent; \<^verbatim>\<open>PolicyEvaluatorV2.evaluate\<close> returns ESCALATE when the
  environment is staging or dev and DENY with the reason "Unknown intent in production"
  in every other environment.
\<close>

theorem unknown_intent_never_allowed:
  assumes "tax_intents t = Some defs"
    and "find_intent defs (get_name ctx) = Inr None"
    and "find_exact n = None"
    and "find_namespace_match re_match rules n = Inr None"
  shows "evaluate t ctx =
           Inr \<lparr>decision = DENY, reason = ''Unknown intent: '' @ show_name (get_name ctx)\<rparr>
       \<and> evaluate_v2 find_exact evaluate_intent re_match rules n e =
           Inr (if e = ''staging'' \<or> e = ''dev''
                then \<lparr>decision = ESCALATE,
                      reason = ''Unknown intent in non-production, escalating for review''\<rparr>
                else \<lparr>decision = DENY, reason = ''Unknown intent in production''\<rparr>)
       \<and> \<not> allows (evaluate t ctx)
       \<and> \<not> allows (evaluate_v2 find_exact evaluate_intent re_match rules n e)"
  using assms by (auto simp add: evaluate_def evaluate_v2_def allows_def)

theorem unknown_intent_never_allowed_witness:
  "tax_intents intents_yaml = Some yaml_intents
   \<and> find_intent yaml_intents (get_name (mk_context ''FOO'' (Some (95 / 100)) [] ''production''))
       = Inr None
   \<and> exact_in yaml_intents_v2 ''DELETE.ALL'' = None
   \<and> find_namespace_match anchored_match yaml_intents_v2 ''DELETE.ALL'' = Inr None
   \<and> evaluate intents_yaml (mk_context ''FOO'' (Some (95 / 100)) [] ''production'')
       = Inr \<lparr>decision = DENY, reason = ''Unknown intent: FOO''\<rparr>
   \<and> evaluate_v2 (exact_in yaml_intents_v2) (\<lambda>i. \<lparr>decision = ALLOW, reason = ''ok''\<rparr>)
       anchored_match yaml_intents_v2 ''DELETE.ALL'' ''dev''
       = Inr \<lparr>decision = ESCALATE,
              reason = ''Unknown intent in non-production, escalating for review''\<rparr>"
proof -
  let ?c = "mk_context ''FOO'' (Some (95 / 100)) [] ''production''"
  have h1: "tax_intents intents_yaml = Some yaml_intents" by (simp add: intents_yaml_def)
  have h2: "find_intent yaml_intents (get_name ?c) = Inr None"
    by (simp add: yaml_intents_def mk_intent_def_def mk_context_def get_name_def)
  have h3: "exact_in yaml_intents_v2 ''DELETE.ALL'' = None"
    by (simp add: yaml_intents_v2_def exact_in_def)
  have h4: "find_namespace_match anchored_match yaml_intents_v2 ''DELETE.ALL'' = Inr None"
    by (simp add: yaml_intents_v2_def namespace_regex_def replace_char_def anchored_match_def
        backslash_def)
  have s: "show_name (get_name ?c) = ''FOO''"
    by (simp add: show_name_def get_name_def mk_context_def)
  from unknown_intent_never_allowed [where find_exact = "exact_in yaml_intents_v2"
      and n = "''DELETE.ALL''" and re_match = anchored_match and rules = yaml_intents_v2
      and evaluate_intent = "\<lambda>i. \<lparr>decision = ALLOW, reason = ''ok''\<rparr>" and e = "''dev''",
      OF h1 h2 h3 h4]
    h1 h2 h3 h4 s
  show ?thesis by simp
qed

text \<open>
  C1 as stated fails: in staging, a non-production environment, the evaluator of
  \<^verbatim>\<open>engine.py\<close> answers an unknown intent with DENY, not ESCALATE.
\<close>

theorem unknown_intent_staging_denied:
  "find_intent yaml_intents (get_name (mk_context ''FOO'' (Some (95 / 100)) [] ''staging'')) = Inr None
   \<and> get_environment (mk_context ''FOO'' (Some (95 / 100)) [] ''staging'') = ''staging''
   \<and> evaluate intents_yaml (mk_context ''FOO'' (Some (95 / 100)) [] ''staging'')
       = Inr \<lparr>decision = DENY, reason = ''Unknown intent: FOO''\<rparr>
   \<and> DENY \<noteq> ESCALATE"
  by (simp add: evaluate_def intents_yaml_def yaml_intents_def mk_intent_def_def mk_context_def
      get_name_def get_environment_def show_name_def)

text \<open>
  C2, the failing input. DELETE_RESOURCE (CRITICAL) in production with confidence 0.95:
  the approval check and the production block both apply and disagree; the method
  returns at the approval check with ESCALATE, although the most restrictive applicable
  outcome is DENY.
\<close>

theorem escalate_preempts_deny:
  "evaluate intents_yaml (mk_context ''DELETE_RESOURCE'' (Some (95 / 100)) [] ''production'')
     = Inr \<lparr>decision = ESCALATE,
            reason = ''Human approval required for high risk in production''\<rparr>
   \<and> applicable_outcomes (95 / 100) (9 / 10) production_defaults ''production'' ''CRITICAL''
     = [ESCALATE, DENY]
   \<and> most_restrictive [ESCALATE, DENY] = DENY"
  by (simp add: evaluate_def intents_yaml_def yaml_intents_def mk_intent_def_def mk_context_def
      get_name_def get_environment_def get_confidence_def get_env_defaults_def decide_def
      confidence_too_low_def needs_human_approval_def critical_in_production_def
      production_defaults_def staging_defaults_def applicable_outcomes_def)

text \<open>Outside that overlap the first check that fires is also the most restrictive.\<close>

lemma decide_most_restrictive:
  "\<not> (needs_human_approval d risk \<and> critical_in_production e risk \<and> \<not> confidence_too_low c th)
   \<Longrightarrow> decision (decide c th d e risk) = most_restrictive (applicable_outcomes c th d e risk)"
  by (auto simp add: decide_def applicable_outcomes_def)


text \<open>
  C3, the failing input. MODIFY_RESOURCE declares the required fields target, action_type
  and change_size; a staging request that carries none of them is allowed.
\<close>

theorem required_fields_not_checked:
  "find_intent yaml_intents (get_name (mk_context ''MODIFY_RESOURCE'' (Some (95 / 100)) [] ''staging''))
     = Inr (Some (mk_intent_def ''MODIFY_RESOURCE''
                    [''target'', ''action_type'', ''change_size''] ''HIGH''))
   \<and> missing_fields
         (mk_intent_def ''MODIFY_RESOURCE'' [''target'', ''action_type'', ''change_size''] ''HIGH'')
         (mk_context ''MODIFY_RESOURCE'' (Some (95 / 100)) [] ''staging'')
     = [''target'', ''action_type'', ''change_size'']
   \<and> evaluate intents_yaml (mk_context ''MODIFY_RESOURCE'' (Some (95 / 100)) [] ''staging'')
     = Inr \<lparr>decision = ALLOW, reason = ''Policy requirements met''\<rparr>"
  by (simp add: evaluate_def intents_yaml_def yaml_intents_def mk_intent_def_def mk_context_def
      get_name_def get_environment_def get_confidence_def get_env_defaults_def decide_def
      confidence_too_low_def needs_human_approval_def critical_in_production_def
      production_defaults_def staging_defaults_def missing_fields_def)

text \<open>The decision never depends on which further fields the intent carries.\<close>

lemma evaluate_ignores_fields:
  "evaluate t \<lparr>ctx_intent = Some (i\<lparr>intent_fields := fs\<rparr>), ctx_environment = e\<rparr>
   = evaluate t \<lparr>ctx_intent = Some i, ctx_environment = e\<rparr>"
proof -
  let ?a = "\<lparr>ctx_intent = Some (i\<lparr>intent_fields := fs\<rparr>), ctx_environment = e\<rparr>"
  let ?b = "\<lparr>ctx_intent = Some i, ctx_environment = e\<rparr>"
  have "get_name ?a = get_name ?b" "get_confidence ?a = get_confidence ?b"
    "get_environment ?a = get_environment ?b"
    by (simp_all add: get_name_def get_confidence_def get_environment_def)
  then show ?thesis unfolding evaluate_def by (simp only:)
qed

lemma get_confidence_absent: "no_confidence ctx \<Longrightarrow> get_confidence ctx = 0"
  by (simp add: no_confidence_def get_confidence_def split: option.splits)

lemma decide_low: "c < th \<Longrightarrow> decide c th d e r = \<lparr>decision = DENY, reason = ''Confidence too low''\<rparr>"
  by (simp add: decide_def confidence_too_low_def)

text \<open>
  C10 (as amended). A request without a confidence field is evaluated with confidence 0
  and, under a positive threshold, is never allowed: when the intent matches a rule the
  answer is DENY with reason "Confidence too low", and when it matches none the answer
  is DENY with the unknown-intent reason.
\<close>

theorem absent_confidence_denied:
  assumes "no_confidence ctx"
    and "tax_constraints t = Some cs" and "confidence_threshold cs = Some th" and "0 < th"
  shows "get_confidence ctx = 0
       \<and> \<not> allows (evaluate t ctx)
       \<and> (matches_rule t ctx \<longrightarrow>
            evaluate t ctx = Inr \<lparr>decision = DENY, reason = ''Confidence too low''\<rparr>)
       \<and> (unknown_intent t ctx \<longrightarrow>
            evaluate t ctx =
              Inr \<lparr>decision = DENY, reason = ''Unknown intent: '' @ show_name (get_name ctx)\<rparr>)"
proof -
  have c0: "get_confidence ctx = 0" using assms(1) by (rule get_confidence_absent)
  have low: "\<And>d e r. decide (get_confidence ctx) th d e r
      = \<lparr>decision = DENY, reason = ''Confidence too low''\<rparr>"
    using c0 assms(4) by (simp add: decide_low)
  have a: "\<not> allows (evaluate t ctx)"
    using assms(2,3) low
    by (simp add: evaluate_def allows_def split: option.splits sum.splits)
  have b: "matches_rule t ctx \<longrightarrow>
            evaluate t ctx = Inr \<lparr>decision = DENY, reason = ''Confidence too low''\<rparr>"
    using assms(2,3) low
    by (auto simp add: evaluate_def matches_rule_def split: option.splits sum.splits)
  have c: "unknown_intent t ctx \<longrightarrow>
            evaluate t ctx =
              Inr \<lparr>decision = DENY, reason = ''Unknown intent: '' @ show_name (get_name ctx)\<rparr>"
    by (auto simp add: evaluate_def unknown_intent_def split: option.splits)
  from c0 a b c show ?thesis by blast
qed

theorem absent_confidence_denied_witness:
  "no_confidence (mk_context ''READ_PII'' None [] ''staging'')
   \<and> no_confidence (mk_context ''FOO'' None [] ''production'')
   \<and> tax_constraints intents_yaml = Some
        \<lparr>confidence_threshold = Some (9 / 10),
         environment_defaults = Some
           [(''production'', production_defaults), (''staging'', staging_defaults)]\<rparr>
   \<and> (0::real) < 9 / 10
   \<and> matches_rule intents_yaml (mk_context ''READ_PII'' None [] ''staging'')
   \<and> unknown_intent intents_yaml (mk_context ''FOO'' None [] ''production'')
   \<and> evaluate intents_yaml (mk_context ''READ_PII'' None [] ''staging'')
       = Inr \<lparr>decision = DENY, reason = ''Confidence too low''\<rparr>
   \<and> evaluate intents_yaml (mk_context ''FOO'' None [] ''production'')
       = Inr \<lparr>decision = DENY, reason = ''Unknown intent: FOO''\<rparr>"
proof -
  let ?cs = "\<lparr>confidence_threshold = Some (9 / 10),
         environment_defaults = Some
           [(''production'', production_defaults), (''staging'', staging_defaults)]\<rparr>"
  have n1: "no_confidence (mk_context ''READ_PII'' None [] ''staging'')"
    by (simp add: no_confidence_def mk_context_def)
  have n2: "no_confidence (mk_context ''FOO'' None [] ''production'')"
    by (simp add: no_confidence_def mk_context_def)
  have cs: "tax_constraints intents_yaml = Some ?cs" by (simp add: intents_yaml_def)
  have th: "confidence_threshold ?cs = Some (9 / 10)" by simp
  have pos: "(0::real) < 9 / 10" by simp
  have m: "matches_rule intents_yaml (mk_context ''READ_PII'' None [] ''staging'')"
    by (simp add: matches_rule_def intents_yaml_def yaml_intents_def mk_intent_def_def
        mk_context_def get_name_def)
  have u: "unknown_intent intents_yaml (mk_context ''FOO'' None [] ''production'')"
    by (simp add: unknown_intent_def intents_yaml_def yaml_intents_def mk_intent_def_def
        mk_context_def get_name_def)
  have s: "show_name (get_name (mk_context ''FOO'' None [] ''production'')) = ''FOO''"
    by (simp add: show_name_def get_name_def mk_context_def)
  from absent_confidence_denied [OF n1 cs th pos] absent_confidence_denied [OF n2 cs th pos]
    n1 n2 cs pos m u s
  show ?thesis by simp
qed

text \<open>
  C10 as stated fails: for an unknown intent without confidence the reason is the
  unknown-intent one, not "Confidence too low".
\<close>

theorem absent_confidence_unknown_intent:
  "no_confidence (mk_context ''FOO'' None [] ''production'')
   \<and> evaluate intents_yaml (mk_context ''FOO'' None [] ''production'')
       = Inr \<lparr>decision = DENY, reason = ''Unknown intent: FOO''\<rparr>
   \<and> ''Unknown intent: FOO'' \<noteq> ''Confidence too low''"
  by (simp add: evaluate_def intents_yaml_def yaml_intents_def mk_intent_def_def mk_context_def
      get_name_def show_name_def no_confidence_def)


subsection \<open>Pattern scanner\<close>

lemma log2_32: "log 2 (1 / 32) = - 5"
proof -
  have "real 5 = log (real 2) (real 32)" by (rule log_of_power_eq) simp_all
  then have "log 2 32 = (5::real)" by simp
  then show ?thesis by (simp add: log_divide)
qed

lemma entropy_32: "shannon_entropy ''ABCDEFGHIJKLMNOPQRSTUVWXYZ012345'' = 5"
  by (simp add: shannon_entropy_def log2_32)

lemma tokens_32: "long_tokens ''ABCDEFGHIJKLMNOPQRSTUVWXYZ012345'' = [''ABCDEFGHIJKLMNOPQRSTUVWXYZ012345'']"
  by (simp add: long_tokens_def is_word_char_def)

text \<open>
  The redaction helper keeps the first two and the last two characters of a match longer
  than four and stars out the rest; a shorter match is replaced as a whole.
\<close>

lemma redact_long:
  assumes "4 < length t"
  shows "length (redact t) = length t \<and> take 2 (redact t) = take 2 t
    \<and> drop (length t - 2) (redact t) = drop (length t - 2) t
    \<and> (\<forall>i. 2 \<le> i \<and> i < length t - 2 \<longrightarrow> redact t ! i = CHR ''*'')"
  using assms by (auto simp add: redact_def nth_append)

lemma redact_short: "length t \<le> 4 \<Longrightarrow> redact t = ''***''"
  by (simp add: redact_def)

lemma scan_redacts:
  "f \<in> set (scan finditer text) \<Longrightarrow> redacted f = redact (slice text (position f))"
  by (auto simp add: scan_def)

text \<open>
  Every finding of the entropy stage shows the first four and the last four characters
  of a token that is at least 20 characters long.
\<close>

lemma entropy_scan_redacted:
  assumes "f \<in> set (entropy_scan fmt text)"
  shows "\<exists>token \<in> set (long_tokens text).
           20 \<le> length token \<and> ef_token_length f = length token \<and>
           ef_redacted f = take 4 token @ ''...'' @ drop (length token - 4) token"
proof -
  from assms obtain token where t: "token \<in> set (long_tokens text)"
    and f: "ef_redacted f = entropy_redact token" "ef_token_length f = length token"
    by (auto simp add: entropy_scan_def)
  from t have "20 \<le> length token" by (simp add: long_tokens_def)
  with t f show ?thesis by (auto simp add: entropy_redact_def)
qed

text \<open>
  C9, the failing input. The entropy stage does not call the redaction helper: for a
  token of 32 distinct characters, sent under an outbound intent, the finding shows the
  first four and the last four characters of the token, where the helper would show two
  and two.
\<close>

theorem entropy_finding_shows_eight:
  "scan_v2 regex_scan fmt ''ABCDEFGHIJKLMNOPQRSTUVWXYZ012345'' ''SEND_EXTERNAL_REQUEST''
     = (regex_scan ''ABCDEFGHIJKLMNOPQRSTUVWXYZ012345'',
        [\<lparr>ef_type = ''high_entropy_token'', ef_severity = ''HIGH'',
              ef_description = ''Potential secret/token detected (entropy: '' @ fmt 5 @ '')'',
              ef_token_length = 32, ef_redacted = ''ABCD...2345''\<rparr>])
   \<and> shown_prefix ''ABCDEFGHIJKLMNOPQRSTUVWXYZ012345'' ''ABCD...2345'' = 4
   \<and> shown_suffix ''ABCDEFGHIJKLMNOPQRSTUVWXYZ012345'' ''ABCD...2345'' = 4
   \<and> redact ''ABCDEFGHIJKLMNOPQRSTUVWXYZ012345'' = ''AB****************************45''"
  by (simp add: scan_v2_def is_outbound_intent_def entropy_scan_def
      tokens_32 entropy_32 entropy_threshold_def entropy_redact_def shown_prefix_def
      shown_suffix_def redact_def)

text \<open>
  The scanner of the technical deep dive also returns the raw match, in the field
  \<open>matched_text\<close> of every finding.
\<close>

lemma scan_logged_raw:
  "scan_logged (\<lambda>p t. if p = ''ssn'' then [(5, 16)] else []) ''SSN: 123-45-6789''
   = [\<lparr>finding_type = ''ssn'', position = (5, 16), redacted = ''12*******89'',
       lf_severity = ''CRITICAL'',
       lf_description = ''Social Security Number pattern detected'',
       matched_text = ''123-45-6789''\<rparr>]"
  by (simp add: scan_logged_def pattern_table_def slice_def redact_def)

subsection \<open>Trust, isolation and the governance commands\<close>



lemma apply_penalty_floor:
  "apply_penalty dims d p = Inr dims' \<Longrightarrow> \<exists>t. dims' d = Some t \<and> 0 \<le> t"
  by (auto simp add: apply_penalty_def penalise_def split: option.splits)


lemma apply_penalty_no_ceiling:
  "apply_penalty [''data_access'' \<mapsto> 100] ''data_access'' (- 20)
   = Inr [''data_access'' \<mapsto> 120]"
  by (simp add: apply_penalty_def penalise_def)
















text \<open>
  C6. A purge is a single transition of the whole state that cannot fail: it keeps the
  fleet, records no decision on any agent, leaves every agent with trust 0, level 0 and
  status REVOKED, keeps the earlier investigations and appends exactly one new
  investigation per agent, in fleet order, each tagged GLOBAL_SECURITY_INCIDENT.
\<close>

theorem purge_revokes_fleet:
  "exec cfg (Purge now) st = Inr (purge now st)
   \<and> map agent_id (agents (purge now st)) = map agent_id (agents st)
   \<and> map last_event (agents (purge now st)) = map last_event (agents st)
   \<and> (\<forall>a \<in> set (agents (purge now st)).
         trust a = 0 \<and> isolationLevel a = 0 \<and> status a = REVOKED)
   \<and> take (length (investigations st)) (investigations (purge now st)) = investigations st
   \<and> length (investigations (purge now st)) = length (investigations st) + length (agents st)
   \<and> map inv_agent_id (drop (length (investigations st)) (investigations (purge now st)))
       = map agent_id (agents st)
   \<and> (\<forall>v \<in> set (drop (length (investigations st)) (investigations (purge now st))).
         breach_type v = ''GLOBAL_SECURITY_INCIDENT'' \<and> inv_status v = UNDER_INVESTIGATION)"
  by (auto simp add: purge_def revoke_def purge_investigation_def comp_def)

lemma purged_two_eq:
  "purged_two =
     \<lparr>agents = [revoke (fresh_agent ''bot-1'' ''k1''), revoke (fresh_agent ''bot-2'' ''k2'')],
      investigations = [purge_investigation 7 (fresh_agent ''bot-1'' ''k1''),
                        purge_investigation 7 (fresh_agent ''bot-2'' ''k2'')]\<rparr>"
  by (simp add: purged_two_def two_agents_def issue_def purge_def empty_system_def fresh_agent_def)

theorem purge_revokes_fleet_witness:
  "map agent_id (agents (purge 7 two_agents)) = [''bot-1'', ''bot-2'']
   \<and> map trust (agents (purge 7 two_agents)) = [0, 0]
   \<and> map isolationLevel (agents (purge 7 two_agents)) = [0, 0]
   \<and> map status (agents (purge 7 two_agents)) = [REVOKED, REVOKED]
   \<and> map inv_agent_id (investigations (purge 7 two_agents)) = [''bot-1'', ''bot-2'']
   \<and> map breach_type (investigations (purge 7 two_agents))
       = [''GLOBAL_SECURITY_INCIDENT'', ''GLOBAL_SECURITY_INCIDENT'']"
proof -
  have a: "map agent_id (agents two_agents) = [''bot-1'', ''bot-2'']"
    by (simp add: two_agents_def issue_def empty_system_def fresh_agent_def)
  have i: "investigations two_agents = []"
    by (simp add: two_agents_def issue_def empty_system_def fresh_agent_def)
  from purge_revokes_fleet [of example_config 7 two_agents] a i purged_two_eq
  show ?thesis
    by (simp add: purged_two_def revoke_def purge_investigation_def fresh_agent_def)
qed



lemma open_index_iff:
  "(open_index st aid = Some i) =
   (current_investigation st aid = Some i \<and>
    inv_status (investigations st ! i) = UNDER_INVESTIGATION)"
  by (auto simp add: open_index_def split: option.splits)



text \<open>
  The dashboard offers the Restore button for the current investigation exactly when a
  restore would succeed.
\<close>

lemma restore_offered_iff_legal:
  "(''Restore Agent'' \<in> set (modal_actions
       (map_option (\<lambda>i. investigations st ! i) (current_investigation st aid))))
   = (\<exists>st'. restore aid st = Inr st')"
  by (auto simp add: modal_actions_def restore_def open_index_def split: option.splits)


subsection \<open>Audit ledger\<close>

text \<open>The serialization is injective: the content can be read back field by field.\<close>

lemma ser_nat_split: "ser_nat n @ xs = ser_nat m @ ys \<Longrightarrow> n = m \<and> xs = ys"
proof (induction n arbitrary: m)
  case 0
  then show ?case by (cases m) (simp_all add: ser_nat_def)
next
  case (Suc n)
  show ?case
  proof (cases m)
    case 0
    with Suc.prems show ?thesis by (simp add: ser_nat_def)
  next
    case (Suc k)
    with Suc.prems have "ser_nat n @ xs = ser_nat k @ ys" by (simp add: ser_nat_def)
    with Suc.IH [of k] Suc show ?thesis by simp
  qed
qed

lemma ser_str_split: "ser_str x @ xs = ser_str y @ ys \<Longrightarrow> x = y \<and> xs = ys"
proof -
  assume "ser_str x @ xs = ser_str y @ ys"
  then have "ser_nat (length x) @ (x @ xs) = ser_nat (length y) @ (y @ ys)"
    by (simp add: ser_str_def)
  then have "length x = length y" and "x @ xs = y @ ys"
    using ser_nat_split by blast+
  then show ?thesis by simp
qed

lemma ser_decision_split: "ser_decision d @ xs = ser_decision e @ ys \<Longrightarrow> d = e \<and> xs = ys"
  by (cases d; cases e) (simp_all add: ser_decision_def)

lemma serialize_inj: "serialize c = serialize c' \<Longrightarrow> c = c'"
proof -
  obtain a i d r t n where c: "c = (a, i, d, r, t, n)" by (cases c) auto
  obtain a' i' d' r' t' n' where c': "c' = (a', i', d', r', t', n')" by (cases c') auto
  assume "serialize c = serialize c'"
  then have e1: "ser_str a @ (ser_str i @ ser_decision d @ ser_str r @ ser_nat t @ ser_nat n)
      = ser_str a' @ (ser_str i' @ ser_decision d' @ ser_str r' @ ser_nat t' @ ser_nat n')"
    by (simp add: serialize_def c c')
  from ser_str_split [OF e1] have a: "a = a'"
    and e2: "ser_str i @ (ser_decision d @ ser_str r @ ser_nat t @ ser_nat n)
      = ser_str i' @ (ser_decision d' @ ser_str r' @ ser_nat t' @ ser_nat n')" by simp_all
  from ser_str_split [OF e2] have i: "i = i'"
    and e3: "ser_decision d @ (ser_str r @ ser_nat t @ ser_nat n)
      = ser_decision d' @ (ser_str r' @ ser_nat t' @ ser_nat n')" by simp_all
  from ser_decision_split [OF e3] have d: "d = d'"
    and e4: "ser_str r @ (ser_nat t @ ser_nat n) = ser_str r' @ (ser_nat t' @ ser_nat n')"
    by simp_all
  from ser_str_split [OF e4] have r: "r = r'"
    and e5: "ser_nat t @ ser_nat n = ser_nat t' @ ser_nat n'" by simp_all
  from ser_nat_split [OF e5] have t: "t = t'" and e6: "ser_nat n = ser_nat n'" by simp_all
  from e6 have "ser_nat n @ [] = ser_nat n' @ []" by simp
  from ser_nat_split [OF this] have n: "n = n'" by simp
  from a i d r t n show ?thesis by (simp add: c c')
qed

lemma latest_hash_append: "latest_hash (l @ [e]) = current_hash e"
  by (simp add: latest_hash_def)

lemma verify_from_append:
  "verify_from H h (xs @ ys) =
   (verify_from H h xs \<and> verify_from H (if xs = [] then h else current_hash (last xs)) ys)"
  by (induction xs arbitrary: h) auto

lemma verify_append_entry:
  assumes "verify H l"
  shows "verify H (append_entry H G l x)"
proof -
  obtain agent i d r ts where x: "x = (agent, i, d, r, ts)" by (cases x) auto
  show ?thesis
    using assms
    by (simp add: verify_def x append_entry_def Let_def verify_from_append latest_hash_def
        content_of_def)
qed

lemma verify_fold:
  "verify H l \<Longrightarrow> verify H (fold (\<lambda>x ledger. append_entry H G ledger x) xs l)"
  by (induction xs arbitrary: l) (simp_all add: verify_append_entry)

text \<open>An untouched chain verifies, whatever the hash function.\<close>

lemma verify_build: "verify H (build_ledger H G xs)"
  unfolding build_ledger_def by (rule verify_fold) (simp add: verify_def)

lemma append_entry_hash:
  "current_hash (last (append_entry H G l x))
   = H (latest_hash l @ serialize (content_of (last (append_entry H G l x))))"
  by (cases x) (simp add: append_entry_def Let_def entry_hash_def content_of_def)

lemma verify_split:
  assumes "i < length l"
  shows "verify H (l[i := e']) =
     (verify_from H genesis_hash (take i l) \<and>
      previous_hash e' = latest_hash (take i l) \<and>
      current_hash e' = entry_hash H (previous_hash e') (content_of e') \<and>
      verify_from H (current_hash e') (drop (Suc i) l))"
proof -
  have "l[i := e'] = take i l @ e' # drop (Suc i) l"
    using assms by (rule upd_conv_take_nth_drop)
  then show ?thesis by (auto simp add: verify_def verify_from_append latest_hash_def)
qed

lemma tamper_changes:
  "tamper_entry t e \<noteq> e \<Longrightarrow>
   (case t of
      SetAgent v \<Rightarrow> v \<noteq> ai_id e
    | SetIntent v \<Rightarrow> v \<noteq> al_intent e
    | SetDecision v \<Rightarrow> v \<noteq> al_decision e
    | SetReason v \<Rightarrow> v \<noteq> al_reason e
    | SetTimestamp v \<Rightarrow> v \<noteq> al_timestamp e
    | SetId v \<Rightarrow> v \<noteq> al_id e
    | SetPreviousHash v \<Rightarrow> v \<noteq> previous_hash e
    | SetCurrentHash v \<Rightarrow> v \<noteq> current_hash e
    | SetSignature v \<Rightarrow> v \<noteq> signature e)"
  by (cases t) auto

text \<open>
  One changed field in a chain that verifies: a changed link or hash is found, a changed
  content is found or the hash function collides, a changed signature goes unnoticed.
\<close>

lemma tamper_detected:
  assumes v: "verify H l" and i: "i < length l" and ne: "tamper_entry t (l ! i) \<noteq> l ! i"
  shows "tamper_outcome H l i t"
proof -
  define e where "e = l ! i"
  define e' where "e' = tamper_entry t e"
  define hx where "hx = latest_hash (take i l)"
  have "l[i := e] = l" by (simp add: e_def)
  with verify_split [OF i, of H e] v
  have "verify_from H genesis_hash (take i l) \<and> previous_hash e = hx \<and>
      current_hash e = entry_hash H (previous_hash e) (content_of e) \<and>
      verify_from H (current_hash e) (drop (Suc i) l)"
    unfolding hx_def by metis
  then have pre: "verify_from H genesis_hash (take i l)"
    and p: "previous_hash e = hx"
    and c: "current_hash e = entry_hash H (previous_hash e) (content_of e)"
    and r: "verify_from H (current_hash e) (drop (Suc i) l)"
    by blast+
  have after: "verify H (l[i := e']) =
     (previous_hash e' = hx \<and>
      current_hash e' = entry_hash H (previous_hash e') (content_of e') \<and>
      verify_from H (current_hash e') (drop (Suc i) l))"
    using verify_split [OF i, of H e'] pre by (simp add: hx_def)
  from ne have "tamper_entry t e \<noteq> e" by (simp add: e_def)
  note ne' = tamper_changes [OF this]
  have sig: "verify H (l[i := e'])"
    if "previous_hash e' = previous_hash e" "current_hash e' = current_hash e"
       "content_of e' = content_of e"
    using that p c r by (simp add: after)
  have link: "\<not> verify H (l[i := e'])" if "previous_hash e' \<noteq> previous_hash e"
    using that p by (simp add: after)
  have cur: "\<not> verify H (l[i := e'])"
    if "current_hash e' \<noteq> current_hash e" "previous_hash e' = previous_hash e"
       "content_of e' = content_of e"
    using that c by (simp add: after)
  have cont: "\<not> verify H (l[i := e']) \<or>
      hash_collision H (previous_hash e @ serialize (content_of e))
        (previous_hash e @ serialize (content_of e'))"
    if d: "content_of e' \<noteq> content_of e" and "previous_hash e' = previous_hash e"
       and "current_hash e' = current_hash e"
  proof -
    from d serialize_inj have "serialize (content_of e) \<noteq> serialize (content_of e')" by metis
    with that c show ?thesis by (auto simp add: after hash_collision_def entry_hash_def)
  qed
  have out: "tamper_outcome H l i t =
     (if signature_field t then verify H (l[i := e'])
      else if hash_field t then \<not> verify H (l[i := e'])
      else \<not> verify H (l[i := e']) \<or>
           hash_collision H (previous_hash e @ serialize (content_of e))
             (previous_hash e @ serialize (content_of e')))"
    by (simp add: tamper_outcome_def Let_def e_def e'_def)
  show ?thesis
  proof (cases t)
    case (SetSignature x)
    then show ?thesis unfolding out using sig by (simp add: e'_def content_of_def)
  next
    case (SetPreviousHash x)
    then show ?thesis unfolding out using link ne' by (simp add: e'_def)
  next
    case (SetCurrentHash x)
    then show ?thesis unfolding out using cur ne' by (simp add: e'_def content_of_def)
  next
    case (SetAgent x)
    then show ?thesis unfolding out using cont ne' by (simp add: e'_def content_of_def)
  next
    case (SetIntent x)
    then show ?thesis unfolding out using cont ne' by (simp add: e'_def content_of_def)
  next
    case (SetDecision x)
    then show ?thesis unfolding out using cont ne' by (simp add: e'_def content_of_def)
  next
    case (SetReason x)
    then show ?thesis unfolding out using cont ne' by (simp add: e'_def content_of_def)
  next
    case (SetTimestamp x)
    then show ?thesis unfolding out using cont ne' by (simp add: e'_def content_of_def)
  next
    case (SetId x)
    then show ?thesis unfolding out using cont ne' by (simp add: e'_def content_of_def)
  qed
qed

lemmas ledger_defs = example_entries_def build_ledger_def append_entry_def Let_def
  latest_hash_def genesis_hash_def entry_hash_def toy_sign_def verify_def content_of_def

text \<open>
  C8 (as amended). Every appended entry carries the hash of the preceding entry's current
  hash (the genesis hash for the first entry) concatenated with the canonical
  serialization of its own content; a chain built by appends verifies; and after a
  change of one stored field of one entry, verification fails when the field is the
  stored link or the stored hash, fails unless the hash function collides on the two
  hash inputs when the field belongs to the hashed content, and still succeeds when the
  field is the signature.
\<close>

theorem ledger_chain_tamper_evident:
  "current_hash (last (append_entry H G l x))
     = H (latest_hash l @ serialize (content_of (last (append_entry H G l x))))
   \<and> verify H (build_ledger H G xs)
   \<and> (\<forall>i t. i < length (build_ledger H G xs) \<and>
            tamper_entry t (build_ledger H G xs ! i) \<noteq> build_ledger H G xs ! i
            \<longrightarrow> tamper_outcome H (build_ledger H G xs) i t)"
  using append_entry_hash [of H G l x] verify_build [of H G xs]
    tamper_detected [of H "build_ledger H G xs"]
  by blast

theorem ledger_chain_tamper_evident_witness:
  "1 < length example_ledger
   \<and> tamper_entry (SetReason ''nx'') (example_ledger ! 1) \<noteq> example_ledger ! 1
   \<and> verify toy_hash example_ledger
   \<and> \<not> verify toy_hash
         (example_ledger[1 := tamper_entry (SetReason ''nx'') (example_ledger ! 1)])
   \<and> tamper_outcome toy_hash example_ledger 1 (SetReason ''nx'')"
proof -
  have n: "1 < length example_ledger" by (simp add: example_ledger_def ledger_defs)
  have c: "tamper_entry (SetReason ''nx'') (example_ledger ! 1) \<noteq> example_ledger ! 1"
    by (simp add: example_ledger_def ledger_defs)
  have f: "\<not> verify toy_hash
         (example_ledger[1 := tamper_entry (SetReason ''nx'') (example_ledger ! 1)])"
    by (simp add: example_ledger_def ledger_defs toy_hash_def serialize_def ser_str_def
        ser_nat_def ser_decision_def)
  from ledger_chain_tamper_evident [of toy_hash toy_sign "[]" "(''bot'', ''READ_PII'', ALLOW, ''ok'', 1)"
            example_entries]
       n c f
  show ?thesis by (simp add: example_ledger_def)
qed

text \<open>
  C8 as stated fails. One changed byte of a stored signature leaves the chain verifying,
  since the recomputed hashes do not cover the signature; and under a hash function that
  collides, here one that maps every input to the same value, one changed byte of a
  stored reason leaves it verifying as well.
\<close>

theorem changed_byte_unnoticed:
  "signature (example_ledger ! 1) = ''signed''
   \<and> example_ledger[1 := tamper_entry (SetSignature ''sigged'') (example_ledger ! 1)]
       \<noteq> example_ledger
   \<and> verify toy_hash
       (example_ledger[1 := tamper_entry (SetSignature ''sigged'') (example_ledger ! 1)])
   \<and> al_reason (collided_ledger ! 1) = ''no''
   \<and> collided_ledger[1 := tamper_entry (SetReason ''nx'') (collided_ledger ! 1)]
       \<noteq> collided_ledger
   \<and> verify constant_hash
       (collided_ledger[1 := tamper_entry (SetReason ''nx'') (collided_ledger ! 1)])"
  by (simp add: example_ledger_def collided_ledger_def ledger_defs toy_hash_def
      constant_hash_def)

text \<open>The first holds for every hash function and position.\<close>

lemma verify_ignores_signature:
  "i < length l \<Longrightarrow> verify H (l[i := (l ! i)\<lparr>signature := s\<rparr>]) = verify H l"
  using verify_split [of i l H "(l ! i)\<lparr>signature := s\<rparr>"] verify_split [of i l H "l ! i"]
  by (simp add: content_of_def)

text \<open>Under a hash function without collisions every change of hashed content is found.\<close>

lemma injective_hash_detects:
  assumes "inj H" and "verify H l" and "i < length l"
    and "tamper_entry t (l ! i) \<noteq> l ! i" and "\<not> signature_field t"
  shows "\<not> verify H (l[i := tamper_entry t (l ! i)])"
proof -
  from tamper_detected [OF assms(2,3,4)] assms(5)
  have "\<not> verify H (l[i := tamper_entry t (l ! i)]) \<or>
        hash_collision H (previous_hash (l ! i) @ serialize (content_of (l ! i)))
          (previous_hash (l ! i) @ serialize (content_of (tamper_entry t (l ! i))))"
    by (auto simp add: tamper_outcome_def Let_def split: if_splits)
  moreover have "\<not> hash_collision H x y" for x y
    using assms(1) by (auto simp add: hash_collision_def inj_def)
  ultimately show ?thesis by blast
qed

end
